theory Spec2Isabelle
  imports Complex_Main
begin

section \<open>Numeric payload of a rigid transform\<close>

text \<open>
  The connector (scripts/masters_yumi_connector.py) computes with the class
  RigidTransform of the external package core, whose source is not part of the
  repository. A transform carries a 3x3 rotation matrix and a translation vector.
  The numbers are taken over the reals (exact arithmetic); a matrix is the triple
  of its rows.
\<close>

type_synonym vec3 = "real \<times> real \<times> real"
type_synonym mat3 = "vec3 \<times> vec3 \<times> vec3"

definition zeros3 :: vec3 where
  "zeros3 = (0, 0, 0)"

definition eye3 :: mat3 where
  "eye3 = ((1, 0, 0), (0, 1, 0), (0, 0, 1))"

fun vdot :: "vec3 \<Rightarrow> vec3 \<Rightarrow> real" where
  "vdot (a, b, c) (x, y, z) = a * x + b * y + c * z"

fun vadd :: "vec3 \<Rightarrow> vec3 \<Rightarrow> vec3" where
  "vadd (a, b, c) (x, y, z) = (a + x, b + y, c + z)"

fun mat_vec :: "mat3 \<Rightarrow> vec3 \<Rightarrow> vec3" where
  "mat_vec (r1, r2, r3) v = (vdot r1 v, vdot r2 v, vdot r3 v)"

fun transpose3 :: "mat3 \<Rightarrow> mat3" where
  "transpose3 ((a, b, c), (d, e, f), (g, h, i)) = ((a, d, g), (b, e, h), (c, f, i))"

fun mat_neg :: "mat3 \<Rightarrow> mat3" where
  "mat_neg ((a, b, c), (d, e, f), (g, h, i)) = ((- a, - b, - c), (- d, - e, - f), (- g, - h, - i))"

fun mat_mul :: "mat3 \<Rightarrow> mat3 \<Rightarrow> mat3" where
  "mat_mul (r1, r2, r3) m =
     (case transpose3 m of (c1, c2, c3) \<Rightarrow>
        ((vdot r1 c1, vdot r1 c2, vdot r1 c3),
         (vdot r2 c1, vdot r2 c2, vdot r2 c3),
         (vdot r3 c1, vdot r3 c2, vdot r3 c3)))"

text \<open>
  A rotation matrix is orthogonal: its transpose is its inverse. The library's
  constructor only accepts such matrices; the model states it as a predicate where
  a property depends on it.
\<close>

definition orthogonal :: "mat3 \<Rightarrow> bool" where
  "orthogonal r \<longleftrightarrow> mat_mul (transpose3 r) r = eye3 \<and> mat_mul r (transpose3 r) = eye3"

section \<open>Frame-labelled rigid transforms\<close>

text \<open>
  Modelled from the spec: the class RigidTransform (package core, not under src/).
  Spec section 3: a rotation and translation pair tagged with a (from_frame, to_frame)
  label pair; composition requires matching inner labels and fails otherwise;
  inverse swaps the labels; re-basing (as_frames) keeps the numeric payload and
  replaces the labels. The constructor defaults are the identity rotation and the
  zero translation.
\<close>

record RigidTransform =
  rotation :: mat3
  translation :: vec3
  from_frame :: string
  to_frame :: string

text \<open>
  Errors of the callbacks. FrameMismatch is the error raised by a composition whose
  inner labels differ. UnsetTransform stands for the exception Python raises when a
  transform attribute that is still None is used (None.as_frames, None.inverse,
  None * T, T * None).
\<close>

datatype error = FrameMismatch | UnsetTransform

definition RigidTransform_new :: "mat3 \<Rightarrow> string \<Rightarrow> string \<Rightarrow> RigidTransform" where
  "RigidTransform_new r f t =
     \<lparr>rotation = r, translation = zeros3, from_frame = f, to_frame = t\<rparr>"

definition as_frames :: "RigidTransform \<Rightarrow> string \<Rightarrow> string \<Rightarrow> RigidTransform" where
  "as_frames T f t =
     \<lparr>rotation = rotation T, translation = translation T, from_frame = f, to_frame = t\<rparr>"

definition inverse_tf :: "RigidTransform \<Rightarrow> RigidTransform" where
  "inverse_tf T =
     \<lparr>rotation = transpose3 (rotation T),
      translation = mat_vec (mat_neg (transpose3 (rotation T))) (translation T),
      from_frame = to_frame T, to_frame = from_frame T\<rparr>"

definition dot :: "RigidTransform \<Rightarrow> RigidTransform \<Rightarrow> error + RigidTransform" where
  "dot A B =
     (if to_frame B \<noteq> from_frame A then Inl FrameMismatch
      else Inr \<lparr>rotation = mat_mul (rotation A) (rotation B),
                translation = vadd (mat_vec (rotation A) (translation B)) (translation A),
                from_frame = from_frame B, to_frame = to_frame A\<rparr>)"

text \<open>
  Operands of a Python expression \<open>X * Y\<close> that may each have raised already or be
  None: the left operand is evaluated first, so its error wins.
\<close>

definition attr :: "RigidTransform option \<Rightarrow> error + RigidTransform" where
  "attr x = (case x of None \<Rightarrow> Inl UnsetTransform | Some T \<Rightarrow> Inr T)"

definition mul :: "error + RigidTransform \<Rightarrow> error + RigidTransform \<Rightarrow> error + RigidTransform" where
  "mul x y =
     (case x of Inl e \<Rightarrow> Inl e
      | Inr A \<Rightarrow> (case y of Inl e \<Rightarrow> Inl e | Inr B \<Rightarrow> dot A B))"

definition inverse_attr :: "RigidTransform option \<Rightarrow> error + RigidTransform" where
  "inverse_attr x = (case x of None \<Rightarrow> Inl UnsetTransform | Some T \<Rightarrow> Inr (inverse_tf T))"

text \<open>
  Modelled from the spec: ros_pose_to_T and T_to_ros_pose (package yumi_teleop, its
  module file is not under src/). A transported pose carries position and
  orientation only (spec section 6); the orientation is kept as the rotation matrix.
\<close>

type_synonym ros_pose = "mat3 \<times> vec3"

definition ros_pose_to_T :: "ros_pose \<Rightarrow> string \<Rightarrow> string \<Rightarrow> RigidTransform" where
  "ros_pose_to_T p f t =
     \<lparr>rotation = fst p, translation = snd p, from_frame = f, to_frame = t\<rparr>"

definition T_to_ros_pose :: "RigidTransform \<Rightarrow> ros_pose" where
  "T_to_ros_pose T = (rotation T, translation T)"

text \<open>The two calibration constants of the module.\<close>

definition T_MC_YCR :: RigidTransform where
  "T_MC_YCR = RigidTransform_new ((0, -1, 0), (1, 0, 0), (0, 0, 1))
                ''yumi_current_ref'' ''masters_current''"

definition T_YIR_MI :: RigidTransform where
  "T_YIR_MI = RigidTransform_new ((0, 1, 0), (-1, 0, 0), (0, 0, 1))
                ''masters_init'' ''yumi_init_ref''"

section \<open>Frame names of a clutch cycle\<close>

text \<open>Python's decimal rendering of a non-negative integer.\<close>

definition digit_char :: "nat \<Rightarrow> char" where
  "digit_char d = ''0123456789'' ! d"

fun string_of_nat :: "nat \<Rightarrow> string" where
  "string_of_nat n =
     (if n < 10 then [digit_char n]
      else string_of_nat (n div 10) @ [digit_char (n mod 10)])"

declare string_of_nat.simps [simp del]

text \<open>\<open>_clutch(state)\<close>: \<open>'clutch_{0}_{1}'.format(state, self._clutch_i)\<close>.\<close>

definition clutch :: "string \<Rightarrow> nat \<Rightarrow> string" where
  "clutch st i = ''clutch_'' @ st @ ''_'' @ string_of_nat i"

section \<open>The relay state\<close>

text \<open>
  A record put on the callback property queue is a dict from attribute names to
  values; the values are booleans or transforms.
\<close>

datatype attr_val = BoolVal bool | TfVal RigidTransform

type_synonym cb_props = "(string \<times> attr_val) list"

text \<open>
  What rospy.loginfo is called with. The formatted text (publisher name, elapsed
  wall-clock time) is not kept, only which message was written and its data.
\<close>

datatype log_entry =
    LogSettingZero bool
  | LogResetInitPose
  | LogReceivedYumiPose vec3
  | LogDoneInitPose
  | LogClutchDown nat
  | LogClutchUp nat

record relay =
  clutch_state :: bool
  clutch_i :: nat
  T_mz_cu_t :: "RigidTransform option"
  T_w_cu_t :: "RigidTransform option"
  T_mzr_mz :: "RigidTransform option"
  T_mc_mcr :: "RigidTransform option"
  T_w_mc :: "RigidTransform option"
  T_w_cd_t1 :: "RigidTransform option"
  T_w_yi :: "RigidTransform option"
  T_yi_yir :: "RigidTransform option"
  T_ycr_yc :: "RigidTransform option"
  cb_prop_q :: "cb_props list"
  has_zeroed :: bool
  rospy_log :: "log_entry list"

text \<open>\<open>__init__\<close> (the log lines of the start-up are left out).\<close>

definition init_relay :: relay where
  "init_relay =
     \<lparr>clutch_state = False, clutch_i = 0,
      T_mz_cu_t = None, T_w_cu_t = None, T_mzr_mz = None, T_mc_mcr = None,
      T_w_mc = None, T_w_cd_t1 = None,
      T_w_yi = None, T_yi_yir = None, T_ycr_yc = None,
      cb_prop_q = [], has_zeroed = False, rospy_log = []\<rparr>"

text \<open>
  \<open>setattr(self, key, val)\<close> for the attributes of the relay. The queue only ever
  holds the keys that \<open>_reset_init_poses\<close> writes; any other key would create a
  fresh Python attribute that nothing reads, which leaves the model state as it is.
\<close>

fun setattr :: "string \<Rightarrow> attr_val \<Rightarrow> relay \<Rightarrow> relay" where
  "setattr k (BoolVal b) s =
     (if k = ''has_zeroed'' then s\<lparr>has_zeroed := b\<rparr>
      else if k = ''clutch_state'' then s\<lparr>clutch_state := b\<rparr>
      else s)"
| "setattr k (TfVal T) s =
     (if k = ''T_mz_cu_t'' then s\<lparr>T_mz_cu_t := Some T\<rparr>
      else if k = ''T_w_cu_t'' then s\<lparr>T_w_cu_t := Some T\<rparr>
      else if k = ''T_mzr_mz'' then s\<lparr>T_mzr_mz := Some T\<rparr>
      else if k = ''T_mc_mcr'' then s\<lparr>T_mc_mcr := Some T\<rparr>
      else if k = ''T_w_mc'' then s\<lparr>T_w_mc := Some T\<rparr>
      else if k = ''T_w_cd_t1'' then s\<lparr>T_w_cd_t1 := Some T\<rparr>
      else if k = ''T_w_yi'' then s\<lparr>T_w_yi := Some T\<rparr>
      else if k = ''T_yi_yir'' then s\<lparr>T_yi_yir := Some T\<rparr>
      else if k = ''T_ycr_yc'' then s\<lparr>T_ycr_yc := Some T\<rparr>
      else s)"

text \<open>The loop body of \<open>_update_cb_objs\<close>, over the items of one record.\<close>

fun apply_items :: "cb_props \<Rightarrow> relay \<Rightarrow> relay" where
  "apply_items [] s = s"
| "apply_items ((k, v) # kvs) s =
     apply_items kvs
       (setattr k v
          (case v of
             BoolVal b \<Rightarrow>
               (if k = ''has_zeroed'' then s\<lparr>rospy_log := rospy_log s @ [LogSettingZero b]\<rparr>
                else s)
           | TfVal T \<Rightarrow> s))"

text \<open>
  \<open>_update_cb_objs\<close>: when the queue is not empty, one record (the oldest) is taken
  and applied.
\<close>

definition update_cb_objs :: "relay \<Rightarrow> relay" where
  "update_cb_objs s =
     (case cb_prop_q s of
        [] \<Rightarrow> s
      | r # q \<Rightarrow> apply_items r (s\<lparr>cb_prop_q := q\<rparr>))"

section \<open>The callbacks\<close>

text \<open>
  Statements run in order and the first exception ends the callback: \<open>then_do\<close>
  passes the value of a statement on, or its error.
\<close>

definition then_do :: "error + 'a \<Rightarrow> ('a \<Rightarrow> error + 'b) \<Rightarrow> error + 'b" where
  "then_do x f = (case x of Inl e \<Rightarrow> Inl e | Inr v \<Rightarrow> f v)"

text \<open>
  \<open>_reset_init_poses\<close>. The attributes are assigned in place, and three records are
  put on the queue. With no master pose received yet, \<open>self.T_w_mc\<close> is None and
  \<open>self.T_w_mc.as_frames\<close> raises; what was done before stays done.
\<close>

definition reset_init_poses :: "RigidTransform \<Rightarrow> relay \<Rightarrow> relay \<times> error option" where
  "reset_init_poses yumi_pose s =
     (let s1 = s\<lparr>rospy_log := rospy_log s @ [LogResetInitPose, LogReceivedYumiPose (translation yumi_pose)]\<rparr>;
          s2 = s1\<lparr>cb_prop_q := cb_prop_q s1 @ [[(''has_zeroed'', BoolVal False)]]\<rparr>;
          s3 = s2\<lparr>T_mz_cu_t := Some (RigidTransform_new eye3 (clutch ''up'' (clutch_i s2)) ''masters_zero'')\<rparr>
      in case T_w_mc s3 of
           None \<Rightarrow> (s3, Some UnsetTransform)
         | Some M \<Rightarrow>
             (let cu = as_frames M (clutch ''up'' (clutch_i s3)) ''world'';
                  mzr = RigidTransform_new (rotation cu) ''masters_zero'' ''masters_zero_ref'';
                  mcr = RigidTransform_new (rotation (inverse_tf cu)) ''masters_current_ref'' ''masters_current'';
                  yi = yumi_pose;
                  yir = RigidTransform_new (rotation (inverse_tf yi)) ''yumi_init_ref'' ''yumi_init'';
                  ycr = RigidTransform_new (rotation yi) ''yumi_current'' ''yumi_current_ref'';
                  s4 = s3\<lparr>T_w_cu_t := Some cu, T_mzr_mz := Some mzr, T_mc_mcr := Some mcr,
                          T_w_yi := Some yi, T_yi_yir := Some yir, T_ycr_yc := Some ycr\<rparr>;
                  s5 = s4\<lparr>cb_prop_q := cb_prop_q s4 @
                          [[(''T_w_cu_t'', TfVal cu), (''T_mzr_mz'', TfVal mzr), (''T_mc_mcr'', TfVal mcr),
                            (''T_w_yi'', TfVal yi), (''T_yi_yir'', TfVal yir), (''T_ycr_yc'', TfVal ycr)],
                           [(''has_zeroed'', BoolVal True)]]\<rparr>
              in (s5\<lparr>rospy_log := rospy_log s5 @ [LogDoneInitPose]\<rparr>, None)))"

text \<open>
  The five assignments of the forwarding branch of
  \<open>_position_cartesian_current_callback\<close>; \<open>*\<close> associates to the left.
\<close>

definition forward_chain :: "relay \<Rightarrow> error + RigidTransform" where
  "forward_chain s =
     then_do (mul (mul (attr (T_mz_cu_t s)) (inverse_attr (T_w_cu_t s))) (attr (T_w_mc s)))
       (\<lambda>T_mz_mc.
     then_do (mul (mul (attr (T_mzr_mz s)) (Inr T_mz_mc)) (attr (T_mc_mcr s)))
       (\<lambda>T_mzr_mcr.
     then_do (Inr (as_frames T_mzr_mcr ''masters_current'' ''masters_init''))
       (\<lambda>T_mi_mc.
     then_do (mul (mul (Inr T_YIR_MI) (Inr T_mi_mc)) (Inr T_MC_YCR))
       (\<lambda>T_yir_ycr.
     mul (mul (mul (attr (T_w_yi s)) (attr (T_yi_yir s))) (Inr T_yir_ycr)) (attr (T_ycr_yc s))))))"

text \<open>What a pose callback does towards the publisher.\<close>

datatype outcome = Silent | Published ros_pose | Raised error

definition position_cartesian_current_callback :: "ros_pose \<Rightarrow> relay \<Rightarrow> relay \<times> outcome" where
  "position_cartesian_current_callback p s =
     (let s1 = update_cb_objs (s\<lparr>T_w_mc := Some (ros_pose_to_T p ''masters_current'' ''world'')\<rparr>)
      in if \<not> has_zeroed s1 then (s1, Silent)
         else if \<not> clutch_state s1 then
           (case forward_chain s1 of
              Inl e \<Rightarrow> (s1, Raised e)
            | Inr T_w_yc \<Rightarrow> (s1, Published (T_to_ros_pose T_w_yc)))
         else (s1, Silent))"

text \<open>\<open>_clutch_callback\<close>, with \<open>msg.data\<close> as the argument.\<close>

definition clutch_callback :: "bool \<Rightarrow> relay \<Rightarrow> relay \<times> error option" where
  "clutch_callback clutch_down s =
     (if \<not> has_zeroed s then (s, None)
      else if clutch_down then
        (let s1 = s\<lparr>clutch_i := clutch_i s + 1\<rparr>;
             s2 = s1\<lparr>rospy_log := rospy_log s1 @ [LogClutchDown (clutch_i s1)]\<rparr>
         in case T_w_mc s2 of
              None \<Rightarrow> (s2, Some UnsetTransform)
            | Some M \<Rightarrow>
                (s2\<lparr>T_w_cd_t1 := Some (as_frames M (clutch ''down'' (clutch_i s2)) ''world''),
                    clutch_state := clutch_down\<rparr>, None))
      else
        (let s1 = s\<lparr>rospy_log := rospy_log s @ [LogClutchUp (clutch_i s)]\<rparr>
         in case mul (mul (mul (attr (T_mz_cu_t s1)) (inverse_attr (T_w_cu_t s1))) (attr (T_w_cd_t1 s1)))
                   (Inr (RigidTransform_new eye3 (clutch ''up'' (clutch_i s1)) (clutch ''down'' (clutch_i s1)))) of
              Inl e \<Rightarrow> (s1, Some e)
            | Inr T \<Rightarrow>
                (let s2 = s1\<lparr>T_mz_cu_t := Some T\<rparr>
                 in case T_w_mc s2 of
                      None \<Rightarrow> (s2, Some UnsetTransform)
                    | Some M \<Rightarrow>
                        (s2\<lparr>T_w_cu_t := Some (as_frames M (clutch ''up'' (clutch_i s2)) ''world''),
                            clutch_state := clutch_down\<rparr>, None))))"

section \<open>Event streams\<close>

text \<open>
  The transports deliver master poses, pedal messages and reset requests one at a
  time. The reset service converts the robot pose with the frames
  \<open>yumi_init\<close> and \<open>world\<close>. An exception leaves the callback and is reported as
  the outcome; the relay object lives on with what the callback had already done.
\<close>

datatype event = PoseEv ros_pose | ClutchEv bool | ResetEv ros_pose

definition raised :: "relay \<times> error option \<Rightarrow> relay \<times> outcome" where
  "raised r = (case snd r of None \<Rightarrow> (fst r, Silent) | Some e \<Rightarrow> (fst r, Raised e))"

fun step :: "event \<Rightarrow> relay \<Rightarrow> relay \<times> outcome" where
  "step (PoseEv p) s = position_cartesian_current_callback p s"
| "step (ClutchEv b) s = raised (clutch_callback b s)"
| "step (ResetEv y) s = raised (reset_init_poses (ros_pose_to_T y ''yumi_init'' ''world'') s)"

fun run :: "event list \<Rightarrow> relay \<Rightarrow> relay \<times> outcome list" where
  "run [] s = (s, [])"
| "run (e # es) s =
     (case step e s of (s1, out) \<Rightarrow>
        (case run es s1 of (s2, outs) \<Rightarrow> (s2, out # outs)))"

section \<open>The latest master pose\<close>

lemma apply_items_T_w_mc: "T_w_mc s \<noteq> None \<Longrightarrow> T_w_mc (apply_items kvs s) \<noteq> None"
proof (induction kvs arbitrary: s)
  case Nil
  then show ?case by simp
next
  case (Cons kv kvs)
  obtain k v where kv: "kv = (k, v)" by (cases kv)
  show ?case unfolding kv apply_items.simps
    by (rule Cons.IH) (use Cons.prems in \<open>cases v; simp\<close>)
qed

lemma update_cb_objs_T_w_mc: "T_w_mc s \<noteq> None \<Longrightarrow> T_w_mc (update_cb_objs s) \<noteq> None"
proof (cases "cb_prop_q s")
  case Nil
  assume "T_w_mc s \<noteq> None"
  with Nil show ?thesis by (simp add: update_cb_objs_def)
next
  case (Cons r q)
  assume "T_w_mc s \<noteq> None"
  then have "T_w_mc (apply_items r (s\<lparr>cb_prop_q := q\<rparr>)) \<noteq> None"
    by (intro apply_items_T_w_mc) simp
  with Cons show ?thesis by (simp add: update_cb_objs_def)
qed

lemma pose_callback_T_w_mc:
  "T_w_mc (fst (position_cartesian_current_callback p s)) \<noteq> None"
proof -
  have "T_w_mc (update_cb_objs (s\<lparr>T_w_mc := Some (ros_pose_to_T p ''masters_current'' ''world'')\<rparr>)) \<noteq> None"
    by (rule update_cb_objs_T_w_mc) simp
  then show ?thesis
    by (simp add: position_cartesian_current_callback_def Let_def split: sum.splits)
qed

text \<open>
  Claim C10. A reset requested while no master pose has been received yet (the
  attribute \<open>T_w_mc\<close> is still None, as it is in the initial state) raises when it
  captures \<open>T_w_cu_t\<close>: it neither completes nor is ignored. The record clearing
  \<open>has_zeroed\<close> is already on the queue, the baseline record and the record setting
  \<open>has_zeroed\<close> are not, and \<open>T_w_cu_t\<close> is left as it was. With a master pose
  present the reset raises nothing, and every pose callback leaves a master pose
  behind.
\<close>

theorem reset_needs_master_pose:
  "(T_w_mc s = None \<longrightarrow>
      snd (reset_init_poses Y s) = Some UnsetTransform \<and>
      cb_prop_q (fst (reset_init_poses Y s)) = cb_prop_q s @ [[(''has_zeroed'', BoolVal False)]] \<and>
      T_w_cu_t (fst (reset_init_poses Y s)) = T_w_cu_t s \<and>
      has_zeroed (fst (reset_init_poses Y s)) = has_zeroed s) \<and>
   (T_w_mc s \<noteq> None \<longrightarrow> snd (reset_init_poses Y s) = None) \<and>
   T_w_mc init_relay = None \<and>
   T_w_mc (fst (position_cartesian_current_callback p s)) \<noteq> None"
  using pose_callback_T_w_mc [of p s]
  by (auto simp add: reset_init_poses_def Let_def init_relay_def split: option.splits)

theorem reset_needs_master_pose_witness:
  "T_w_mc init_relay = None \<and>
   snd (reset_init_poses (ros_pose_to_T (eye3, zeros3) ''yumi_init'' ''world'') init_relay) = Some UnsetTransform \<and>
   T_w_mc (fst (position_cartesian_current_callback (eye3, zeros3) init_relay)) \<noteq> None \<and>
   snd (reset_init_poses (ros_pose_to_T (eye3, zeros3) ''yumi_init'' ''world'')
          (fst (position_cartesian_current_callback (eye3, zeros3) init_relay))) = None"
  using reset_needs_master_pose [of init_relay "ros_pose_to_T (eye3, zeros3) ''yumi_init'' ''world''" "(eye3, zeros3)"]
        reset_needs_master_pose [of "fst (position_cartesian_current_callback (eye3, zeros3) init_relay)"
           "ros_pose_to_T (eye3, zeros3) ''yumi_init'' ''world''" "(eye3, zeros3)"]
  by simp

end
